theory Spec2Isabelle
  imports Complex_Main "HOL-Library.Sublist" "HOL-Library.AList"
begin

section \<open>Scavenger hunt: the screen component of src/app/index.tsx\<close>

text \<open>
  The component \<open>Index\<close> keeps seven pieces of React state and changes them from a
  handful of handlers. The embedding below is explicit state passing: a record holds the
  seven state variables, every handler is a function from the record to the record, and
  what a handler does to the outside world (an alert, a console message, a network
  request) is appended to a trace that is carried in the record.

  Every state update in the source sets a variable to a value that does not depend on the
  variable's pending value, so running the setters of one handler in sequence gives the
  state React renders after the handler.
\<close>

subsection \<open>JSON values and JavaScript strings\<close>

text \<open>
  \<open>response.json()\<close> can return any JSON value, and the declared type
  \<open>QuestionData\<close> is not checked at run time, so the payload, the stored question and the
  selected answer are JSON values. An object is its list of properties, read at the first
  entry of a key. Strings are byte strings.
\<close>

datatype json =
    JNull
  | JBool bool
  | JNum rat
  | JStr string
  | JArr "json list"
  | JObj "(string \<times> json) list"

type_synonym obj = "(string \<times> json) list"

text \<open>Property access \<open>o.k\<close>: \<open>None\<close> is JavaScript's \<open>undefined\<close>.\<close>

definition field :: "obj \<Rightarrow> string \<Rightarrow> json option" where
  "field ps k = map_of ps k"

text \<open>Truthiness, as \<open>!x\<close>, \<open>x && ...\<close> and \<open>if (x)\<close> test it.\<close>

fun truthy :: "json \<Rightarrow> bool" where
  "truthy JNull = False"
| "truthy (JBool b) = b"
| "truthy (JNum n) = (n \<noteq> 0)"
| "truthy (JStr s) = (s \<noteq> [])"
| "truthy (JArr xs) = True"
| "truthy (JObj ps) = True"

fun truthy_opt :: "json option \<Rightarrow> bool" where
  "truthy_opt None = False"
| "truthy_opt (Some v) = truthy v"

text \<open>\<open>s.includes(t)\<close>: \<open>t\<close> occurs in \<open>s\<close> as a contiguous substring.\<close>

fun includes_str :: "string \<Rightarrow> string \<Rightarrow> bool" where
  "includes_str [] t = (t = [])"
| "includes_str (c # cs) t = (prefix t (c # cs) \<or> includes_str cs t)"

text \<open>
  \<open>s.toLowerCase()\<close> on the letters \<open>A\<close> to \<open>Z\<close>; every other byte is left as it
  is. JavaScript folds all of Unicode, so the two differ on strings with letters outside
  ASCII (the Kelvin sign folds to \<open>k\<close> in JavaScript and to itself here). The expected
  answer that \<open>fetchQuestionData\<close> stores is always \<open>blue\<close>, and the only characters that
  JavaScript folds to \<open>b\<close>, \<open>l\<close>, \<open>u\<close> or \<open>e\<close> are these letters and their capitals,
  so on every stored question the comparison below gives the verdict of the source. The
  general statements about \<open>submitAnswer\<close> are in terms of \<open>toLowerCase\<close> and do not
  unfold it.
\<close>

definition lower_char :: "char \<Rightarrow> char" where
  "lower_char c =
     (let n = (of_char c :: nat) in if 65 \<le> n \<and> n \<le> 90 then char_of (n + 32) else c)"

definition toLowerCase :: "string \<Rightarrow> string" where
  "toLowerCase s = map lower_char s"

datatype js_error = TypeError

text \<open>
  \<open>v.toLowerCase()\<close> on a value: only a string has the method, on anything else the call
  raises a TypeError.
\<close>

fun call_toLowerCase :: "json \<Rightarrow> js_error + string" where
  "call_toLowerCase (JStr s) = Inr (toLowerCase s)"
| "call_toLowerCase v = Inl TypeError"

text \<open>
  \<open>v?.toLowerCase()\<close>: \<open>undefined\<close> and \<open>null\<close> short-circuit to \<open>undefined\<close>
  (\<open>None\<close>).
\<close>

fun optional_toLowerCase :: "json option \<Rightarrow> js_error + string option" where
  "optional_toLowerCase None = Inr None"
| "optional_toLowerCase (Some JNull) = Inr None"
| "optional_toLowerCase (Some v) =
     (case call_toLowerCase v of Inl e \<Rightarrow> Inl e | Inr s \<Rightarrow> Inr (Some s))"

text \<open>Decimal digits of an array index, the property names of a spread array or string.\<close>

fun index_key :: "nat \<Rightarrow> string" where
  "index_key n =
     (if n < 10 then [char_of (48 + n)]
      else index_key (n div 10) @ [char_of (48 + n mod 10)])"

declare index_key.simps [simp del]

text \<open>
  Object spread \<open>{...data}\<close>: the own enumerable properties of the value. An object gives
  its properties, an array and a string give their elements under their indices, and
  \<open>null\<close>, a boolean and a number give nothing.
\<close>

fun spread :: "json \<Rightarrow> obj" where
  "spread (JObj ps) = ps"
| "spread (JArr xs) = zip (map index_key [0..<length xs]) xs"
| "spread (JStr s) = zip (map index_key [0..<length s]) (map (\<lambda>c. JStr [c]) s)"
| "spread v = []"

subsection \<open>Effects and state\<close>

datatype http_method = GET | POST

text \<open>
  What a handler does besides setting state: \<open>Alert.alert(title, message, buttons)\<close> with
  the labels of its buttons (none when the call gives no buttons), \<open>console.error\<close> with
  its first argument, a network request with its method, address and body, and a request
  for the camera permission. The only request in the source is \<open>fetch(url)\<close>, a GET
  without a body.
\<close>

datatype effect =
    Alert string string "string list"
  | ConsoleError string
  | Request http_method string "json option"
  | RequestCameraPermission

record session =
  hasPermission :: "bool option"
  scanned :: bool
  showCamera :: bool
  questionData :: "obj option"
  loading :: bool
  selectedAnswer :: json
  showResult :: bool
  trace :: "effect list"

text \<open>The \<open>useState\<close> initial values; \<open>JNull\<close> is the \<open>null\<close> of \<open>selectedAnswer\<close>.\<close>

definition initial :: session where
  "initial =
     \<lparr>hasPermission = None, scanned = False, showCamera = False, questionData = None,
      loading = False, selectedAnswer = JNull, showResult = False, trace = []\<rparr>"

definition emit :: "effect list \<Rightarrow> session \<Rightarrow> session" where
  "emit es s = s\<lparr>trace := trace s @ es\<rparr>"

text \<open>The network requests of a trace.\<close>

fun is_request :: "effect \<Rightarrow> bool" where
  "is_request (Request m u b) = True"
| "is_request e = False"

definition requests :: "effect list \<Rightarrow> effect list" where
  "requests es = filter is_request es"

fun is_alert :: "effect \<Rightarrow> bool" where
  "is_alert (Alert t m bs) = True"
| "is_alert e = False"

definition alerts :: "effect list \<Rightarrow> effect list" where
  "alerts es = filter is_alert es"

subsection \<open>Handlers\<close>

text \<open>The mount effect: the permission request resolves with a status.\<close>

definition permissionResolved :: "bool \<Rightarrow> session \<Rightarrow> session" where
  "permissionResolved granted s = s\<lparr>hasPermission := Some granted\<rparr>"

definition answerUrl :: string where
  "answerUrl = ''https://570d48f7-91ae-415a-8502-441c37cc0760.mock.pstmn.io/answer''"

text \<open>
  What \<open>await fetch(url)\<close> followed by \<open>await response.json()\<close> gives: the fetch rejects,
  the body is not JSON, or a JSON value.
\<close>

datatype fetch_outcome = FetchRejected | BodyNotJson | Json json

text \<open>
  \<open>fetchQuestionData\<close> is asynchronous. Calling it runs it up to the first \<open>await\<close>: the
  loading flag is set and the request is sent (\<open>fetchQuestionData_start\<close>). The rest runs
  when the request settles (\<open>fetchQuestionData_resume\<close>), and other handlers can run in
  between. \<open>fetchQuestionData\<close> is the two in sequence.
\<close>

definition fetchQuestionData_start :: "string \<Rightarrow> session \<Rightarrow> session" where
  "fetchQuestionData_start url s = emit [Request GET url None] (s\<lparr>loading := True\<rparr>)"

definition storedQuestion :: "json \<Rightarrow> obj" where
  "storedQuestion data =
     AList.update ''Answer'' (JStr ''blue'')
       (AList.update ''url'' (JStr answerUrl) (spread data))"

definition fetchQuestionData_resume :: "fetch_outcome \<Rightarrow> session \<Rightarrow> session" where
  "fetchQuestionData_resume r s =
     (case r of
        Json data \<Rightarrow>
          s\<lparr>questionData := Some (storedQuestion data), selectedAnswer := JNull,
            showResult := False\<rparr>
      | _ \<Rightarrow>
          emit [Alert ''Error'' ''Failed to fetch question data.'' [],
                ConsoleError ''Fetch error:''] s)
     \<lparr>loading := False\<rparr>"

definition fetchQuestionData :: "string \<Rightarrow> fetch_outcome \<Rightarrow> session \<Rightarrow> session" where
  "fetchQuestionData url r s = fetchQuestionData_resume r (fetchQuestionData_start url s)"

definition handleDeepLink :: "string \<Rightarrow> session \<Rightarrow> session" where
  "handleDeepLink url s =
     (if url \<noteq> [] \<and> includes_str url ''postman.com'' then fetchQuestionData_start url s else s)"

definition handleBarCodeScanned :: "string \<Rightarrow> string \<Rightarrow> session \<Rightarrow> session" where
  "handleBarCodeScanned type data s =
     (let s1 = s\<lparr>scanned := True, showCamera := False\<rparr> in
      if includes_str data ''postman.com'' \<or> includes_str data ''http''
      then fetchQuestionData_start data s1
      else (emit [Alert ''Invalid QR Code'' ''Please scan a valid scavenger hunt QR code'' []] s1)
             \<lparr>scanned := False\<rparr>)"

text \<open>
  The comparison \<open>selectedAnswer.toLowerCase() === questionData.Answer?.toLowerCase()\<close>,
  left operand first.
\<close>

definition isCorrect :: "json \<Rightarrow> json option \<Rightarrow> js_error + bool" where
  "isCorrect sel ans =
     (case call_toLowerCase sel of
        Inl e \<Rightarrow> Inl e
      | Inr l \<Rightarrow>
          (case optional_toLowerCase ans of
             Inl e \<Rightarrow> Inl e
           | Inr r \<Rightarrow> Inr (Some l = r)))"

text \<open>
  \<open>submitAnswer\<close> has no \<open>await\<close>, so a call runs it from the guard to the \<open>finally\<close>
  block in one piece. The three tests of the guard read state only, so the \<open>case\<close> on
  \<open>questionData\<close> may come first; \<open>questionData\<close> is \<open>null\<close> or an object, and an
  object is truthy.
\<close>

definition submitAnswer :: "session \<Rightarrow> session" where
  "submitAnswer s =
     (case questionData s of
        None \<Rightarrow> s
      | Some q \<Rightarrow>
          if \<not> truthy (selectedAnswer s) \<or> \<not> truthy_opt (field q ''url'') then s
          else
            (case isCorrect (selectedAnswer s) (field q ''Answer'') of
               Inr True \<Rightarrow>
                 (emit [Alert ''Correct!'' ''Great job! You got it right!'' [''Next Question'']]
                    (s\<lparr>loading := True\<rparr>))
                 \<lparr>showResult := True\<rparr>
             | Inr False \<Rightarrow> emit [Alert ''Incorrect'' ''Try again!'' []] (s\<lparr>loading := True\<rparr>)
             | Inl e \<Rightarrow>
                 emit [Alert ''Error'' ''Failed to submit answer.'' [],
                       ConsoleError ''Submit error:''] (s\<lparr>loading := True\<rparr>))
            \<lparr>loading := False\<rparr>)"

definition resetForNextQuestion :: "session \<Rightarrow> session" where
  "resetForNextQuestion s =
     s\<lparr>questionData := None, selectedAnswer := JNull, showResult := False, scanned := False\<rparr>"

definition startScanning :: "session \<Rightarrow> session" where
  "startScanning s = s\<lparr>showCamera := True, scanned := False\<rparr>"

subsection \<open>The rendered screen\<close>

text \<open>
  The render function decides which controls exist, and a control that is not mounted
  cannot deliver an event. The order of the tests is the order of the \<open>return\<close>s in the
  source: permission pending, permission refused, camera, main screen. The conditions
  that mount a control are modelled, and the values whose rendering can raise, not the
  texts and styles.
\<close>

definition mainScreen :: "session \<Rightarrow> bool" where
  "mainScreen s = (hasPermission s = Some True \<and> \<not> showCamera s)"

text \<open>
  \<open>questionData.responseType === 'multipleChoice' && questionData.choices && (...)\<close>
  guards \<open>questionData.choices.map(...)\<close>. A truthy \<open>choices\<close> that is not an array has
  no usable \<open>map\<close> and the render raises.
\<close>

definition wantsChoices :: "obj \<Rightarrow> bool" where
  "wantsChoices q =
     (field q ''responseType'' = Some (JStr ''multipleChoice'') \<and> truthy_opt (field q ''choices''))"

definition choiceButtons :: "obj \<Rightarrow> json list" where
  "choiceButtons q =
     (if wantsChoices q then (case field q ''choices'' of Some (JArr cs) \<Rightarrow> cs | _ \<Rightarrow> [])
      else [])"

text \<open>
  A value written as a child, \<open>{v}\<close>: React refuses an object, and an array with an
  object in it; strings and numbers are shown, \<open>null\<close>, \<open>undefined\<close> and booleans show
  nothing.
\<close>

fun renderable :: "json \<Rightarrow> bool" where
  "renderable (JObj ps) = False"
| "renderable (JArr xs) = list_all renderable xs"
| "renderable v = True"

fun renderable_opt :: "json option \<Rightarrow> bool" where
  "renderable_opt None = True"
| "renderable_opt (Some v) = renderable v"

text \<open>\<open>v[0]\<close> on a value that is not \<open>null\<close>.\<close>

fun element0 :: "json \<Rightarrow> json option" where
  "element0 (JArr xs) = (case xs of [] \<Rightarrow> None | x # _ \<Rightarrow> Some x)"
| "element0 (JStr s) = (case s of [] \<Rightarrow> None | c # _ \<Rightarrow> Some (JStr [c]))"
| "element0 (JObj ps) = field ps ''0''"
| "element0 v = None"

text \<open>\<open>questionData.pointsRewarded?.[0] || 10\<close>, the number in the result block.\<close>

definition pointsShown :: "obj \<Rightarrow> json" where
  "pointsShown q =
     (case field q ''pointsRewarded'' of
        None \<Rightarrow> JNum 10
      | Some JNull \<Rightarrow> JNum 10
      | Some v \<Rightarrow>
          (case element0 v of
             None \<Rightarrow> JNum 10
           | Some p \<Rightarrow> if truthy p then p else JNum 10))"

text \<open>
  The render of the question block raises when a truthy \<open>choices\<close> is not an array, or
  when one of the values it writes as a child is refused: the image reference and the hint
  (written when truthy), the question, each choice, and the points once the result is
  shown. Not modelled: an empty string or a zero left as a child by \<open>x && (...)\<close>, which
  some versions of the platform refuse outside a text element.
\<close>

definition renderRaises :: "session \<Rightarrow> bool" where
  "renderRaises s =
     (case questionData s of
        None \<Rightarrow> False
      | Some q \<Rightarrow>
          mainScreen s \<and> \<not> loading s \<and>
          ((truthy_opt (field q ''img_src'') \<and> \<not> renderable_opt (field q ''img_src'')) \<or>
           \<not> renderable_opt (field q ''question'') \<or>
           (truthy_opt (field q ''hint'') \<and> \<not> renderable_opt (field q ''hint'')) \<or>
           (wantsChoices q \<and>
            (case field q ''choices'' of
               Some (JArr cs) \<Rightarrow> \<not> list_all renderable cs
             | _ \<Rightarrow> True)) \<or>
           (showResult s \<and> \<not> renderable (pointsShown q))))"

text \<open>The block under \<open>questionData && !loading\<close>.\<close>

definition questionContainer :: "session \<Rightarrow> bool" where
  "questionContainer s =
     (mainScreen s \<and> questionData s \<noteq> None \<and> \<not> loading s \<and> \<not> renderRaises s)"

datatype ui_event =
    GrantPermissionPressed
  | BarcodeScanned string string
  | CancelPressed
  | ScanQRCodePressed
  | ChoicePressed nat
  | SubmitPressed
  | ScanNextPressed

text \<open>
  Whether the rendered screen has a mounted, enabled control for the event. The scanner
  has its callback only while \<open>scanned\<close> is false; the submit button is mounted under
  \<open>selectedAnswer && ...\<close> inside the question block and carries \<open>disabled={loading}\<close>.
\<close>

fun accepts :: "session \<Rightarrow> ui_event \<Rightarrow> bool" where
  "accepts s GrantPermissionPressed = (hasPermission s = Some False)"
| "accepts s (BarcodeScanned type data) =
     (hasPermission s = Some True \<and> showCamera s \<and> \<not> scanned s)"
| "accepts s CancelPressed = (hasPermission s = Some True \<and> showCamera s)"
| "accepts s ScanQRCodePressed = (mainScreen s \<and> questionData s = None \<and> \<not> loading s)"
| "accepts s (ChoicePressed i) =
     (questionContainer s \<and>
      (case questionData s of None \<Rightarrow> False | Some q \<Rightarrow> i < length (choiceButtons q)))"
| "accepts s SubmitPressed =
     (questionContainer s \<and> truthy (selectedAnswer s) \<and> \<not> loading s)"
| "accepts s ScanNextPressed = questionContainer s"

fun handler :: "ui_event \<Rightarrow> session \<Rightarrow> session" where
  "handler GrantPermissionPressed s = emit [RequestCameraPermission] s"
| "handler (BarcodeScanned type data) s = handleBarCodeScanned type data s"
| "handler CancelPressed s = s\<lparr>showCamera := False\<rparr>"
| "handler ScanQRCodePressed s = startScanning s"
| "handler (ChoicePressed i) s =
     (case questionData s of
        None \<Rightarrow> s
      | Some q \<Rightarrow> if i < length (choiceButtons q) then s\<lparr>selectedAnswer := choiceButtons q ! i\<rparr> else s)"
| "handler SubmitPressed s = submitAnswer s"
| "handler ScanNextPressed s = startScanning s"

definition dispatch :: "ui_event \<Rightarrow> session \<Rightarrow> session" where
  "dispatch ev s = (if accepts s ev then handler ev s else s)"

subsection \<open>The modes of the specification\<close>

text \<open>
  The specification names five modes. The source has no mode variable; the mode is read
  off the flags the way the render function reads them: the camera view comes first, then
  the loading indicator, then the welcome block (no question), then the question block
  with or without the result.
\<close>

datatype mode = Idle | Scanning | QuestionShown | Submitting | ResultShown

definition mode_of :: "session \<Rightarrow> mode" where
  "mode_of s =
     (if showCamera s then Scanning
      else if loading s then Submitting
      else if questionData s = None then Idle
      else if showResult s then ResultShown
      else QuestionShown)"

subsection \<open>A sample hunt\<close>

text \<open>The payload and the address of the example in the specification.\<close>

definition sampleUrl :: string where
  "sampleUrl = ''https://example.mock.pstmn.io/q1''"

definition samplePayload :: json where
  "samplePayload =
     JObj [(''question'', JStr ''Pick a color''),
           (''responseType'', JStr ''multipleChoice''),
           (''choices'', JArr [JStr ''red'', JStr ''blue'', JStr ''green''])]"

text \<open>
  Permission granted, scan button, the code decoded, the fetch settled with the payload:
  the question is on the screen.
\<close>

definition atQuestion :: session where
  "atQuestion =
     fetchQuestionData_resume (Json samplePayload)
       (dispatch (BarcodeScanned ''qr'' sampleUrl)
          (dispatch ScanQRCodePressed (permissionResolved True initial)))"

text \<open>The first choice (\<open>red\<close>) and the second (\<open>blue\<close>) selected.\<close>

definition redSelected :: session where
  "redSelected = dispatch (ChoicePressed 0) atQuestion"

definition blueSelected :: session where
  "blueSelected = dispatch (ChoicePressed 1) atQuestion"

text \<open>The correct answer submitted: the result is shown.\<close>

definition atResult :: session where
  "atResult = dispatch SubmitPressed blueSelected"

text \<open>From the question, the button that opens the scanner again.\<close>

definition scanningNext :: session where
  "scanningNext = dispatch ScanNextPressed atQuestion"

text \<open>A deep link arrives while the selection is on the screen; its fetch is in flight.\<close>

definition linkUrl :: string where
  "linkUrl = ''https://www.postman.com/q2''"


text \<open>A payload that brings its own \<open>url\<close> and \<open>Answer\<close>.\<close>

definition suppliedPayload :: json where
  "suppliedPayload =
     JObj [(''question'', JStr ''Pick a color''),
           (''url'', JStr ''https://hunt.example/answer''),
           (''Answer'', JStr ''red'')]"

text \<open>A multiple-choice payload without choices.\<close>

definition noChoicesPayload :: json where
  "noChoicesPayload =
     JObj [(''question'', JStr ''Pick a color''), (''responseType'', JStr ''multipleChoice'')]"

text \<open>A payload whose choices are numbers, and its first choice selected.\<close>

definition numericPayload :: json where
  "numericPayload =
     JObj [(''question'', JStr ''How many?''),
           (''responseType'', JStr ''multipleChoice''),
           (''choices'', JArr [JNum 1, JNum 2])]"

definition numberSelected :: session where
  "numberSelected =
     dispatch (ChoicePressed 0)
       (fetchQuestionData_resume (Json numericPayload)
          (dispatch (BarcodeScanned ''qr'' sampleUrl)
             (dispatch ScanQRCodePressed (permissionResolved True initial))))"

text \<open>The scanner opened from the welcome block, before any question was fetched.\<close>

definition scanningFirst :: session where
  "scanningFirst = dispatch ScanQRCodePressed (permissionResolved True initial)"

text \<open>
  A deep link arrives while the scanner is open on the welcome path: the camera is on, no
  question is stored and a fetch is in flight.
\<close>

definition scanningWhileFetching :: session where
  "scanningWhileFetching = handleDeepLink linkUrl scanningFirst"

text \<open>
  A session whose stored question has no \<open>url\<close>. \<open>fetchQuestionData\<close> never stores such
  a question; the state only exercises the third disjunct of the guard of
  \<open>submitAnswer\<close>.
\<close>

definition noUrlSession :: session where
  "noUrlSession =
     initial\<lparr>questionData := Some [(''question'', JStr ''Pick a color'')],
             selectedAnswer := JStr ''blue''\<rparr>"

text \<open>An address with \<open>http\<close> in it and without \<open>postman.com\<close>.\<close>

definition plainUrl :: string where
  "plainUrl = ''http://example.org/q1''"

section \<open>Properties\<close>

subsection \<open>Auxiliary facts\<close>

lemma includes_str_iff: "includes_str s t \<longleftrightarrow> (\<exists>p q. s = p @ t @ q)"
proof -
  have "includes_str s t \<longleftrightarrow> sublist t s"
    by (induction s) (auto simp: sublist_Cons_right)
  then show ?thesis by (simp add: sublist_def)
qed

lemma field_storedQuestion:
  "field (storedQuestion data) k =
     (if k = ''Answer'' then Some (JStr ''blue'')
      else if k = ''url'' then Some (JStr answerUrl)
      else field (spread data) k)"
  by (simp add: field_def storedQuestion_def update_conv')

lemma answerUrl_nonempty: "answerUrl \<noteq> []"
  by (simp add: answerUrl_def)

lemma fetchQuestionData_Json:
  "fetchQuestionData url (Json data) s =
     s\<lparr>questionData := Some (storedQuestion data), selectedAnswer := JNull,
       showResult := False, loading := False, trace := trace s @ [Request GET url None]\<rparr>"
  by (simp add: fetchQuestionData_def fetchQuestionData_start_def
      fetchQuestionData_resume_def emit_def)

lemma fetchQuestionData_FetchRejected:
  "fetchQuestionData url FetchRejected s =
     s\<lparr>loading := False,
       trace := trace s @ [Request GET url None,
                           Alert ''Error'' ''Failed to fetch question data.'' [],
                           ConsoleError ''Fetch error:'']\<rparr>"
  by (simp add: fetchQuestionData_def fetchQuestionData_start_def
      fetchQuestionData_resume_def emit_def)

lemma fetchQuestionData_BodyNotJson:
  "fetchQuestionData url BodyNotJson s =
     s\<lparr>loading := False,
       trace := trace s @ [Request GET url None,
                           Alert ''Error'' ''Failed to fetch question data.'' [],
                           ConsoleError ''Fetch error:'']\<rparr>"
  by (simp add: fetchQuestionData_def fetchQuestionData_start_def
      fetchQuestionData_resume_def emit_def)

lemma isCorrect_strings:
  "isCorrect (JStr a) (Some (JStr e)) = Inr (toLowerCase a = toLowerCase e)"
  by (simp add: isCorrect_def)

lemma submitAnswer_Correct:
  assumes "questionData s = Some q" "truthy (selectedAnswer s)" "truthy_opt (field q ''url'')"
    and "isCorrect (selectedAnswer s) (field q ''Answer'') = Inr True"
  shows "submitAnswer s =
     s\<lparr>showResult := True, loading := False,
       trace := trace s @ [Alert ''Correct!'' ''Great job! You got it right!'' [''Next Question'']]\<rparr>"
  using assms by (simp add: submitAnswer_def emit_def)

lemma submitAnswer_Incorrect:
  assumes "questionData s = Some q" "truthy (selectedAnswer s)" "truthy_opt (field q ''url'')"
    and "isCorrect (selectedAnswer s) (field q ''Answer'') = Inr False"
  shows "submitAnswer s =
     s\<lparr>loading := False, trace := trace s @ [Alert ''Incorrect'' ''Try again!'' []]\<rparr>"
  using assms by (simp add: submitAnswer_def emit_def)

lemma submitAnswer_Raised:
  assumes "questionData s = Some q" "truthy (selectedAnswer s)" "truthy_opt (field q ''url'')"
    and "isCorrect (selectedAnswer s) (field q ''Answer'') = Inl e"
  shows "submitAnswer s =
     s\<lparr>loading := False,
       trace := trace s @ [Alert ''Error'' ''Failed to submit answer.'' [],
                           ConsoleError ''Submit error:'']\<rparr>"
  using assms by (simp add: submitAnswer_def emit_def)



lemma submitAnswer_requests: "requests (trace (submitAnswer s)) = requests (trace s)"
  by (simp add: submitAnswer_def emit_def requests_def
      split: option.splits sum.splits bool.splits)

subsection \<open>Submitting an answer\<close>

text \<open>
  C1, as stated, fails: a wrong answer is not cleared. With the sample question on the
  screen and \<open>red\<close> selected, the submit button is accepted, the session is back at the
  question, and \<open>selectedAnswer\<close> is still \<open>red\<close>, not \<open>null\<close>.
\<close>

theorem submit_wrong_keeps_selection:
  "questionData redSelected = Some (storedQuestion samplePayload) \<and>
   selectedAnswer redSelected = JStr ''red'' \<and>
   field (storedQuestion samplePayload) ''Answer'' = Some (JStr ''blue'') \<and>
   toLowerCase ''red'' \<noteq> toLowerCase ''blue'' \<and>
   accepts redSelected SubmitPressed \<and>
   mode_of (dispatch SubmitPressed redSelected) = QuestionShown \<and>
   selectedAnswer (dispatch SubmitPressed redSelected) = JStr ''red'' \<and>
   selectedAnswer (dispatch SubmitPressed redSelected) \<noteq> JNull"
  by code_simp

text \<open>
  C1, amended: in a session with a stored question that has a submission url and a string
  \<open>Answer\<close>, submitting a non-empty string that equals the expected answer up to letter
  case sets \<open>showResult\<close>, raises the \<open>Correct!\<close> alert and clears the loading flag;
  submitting any other non-empty string raises the \<open>Incorrect\<close> alert, clears the loading
  flag and changes nothing else: the question, the selected answer and \<open>showResult\<close> stay
  as they were. With the camera closed the session is then in ResultShown after a correct
  answer, and after a wrong one in QuestionShown (in ResultShown if the result was shown
  before). Every question stored by \<open>fetchQuestionData\<close> has the url and the string
  \<open>Answer\<close> (\<open>field_storedQuestion\<close>).
\<close>

theorem submitAnswer_verdict:
  assumes "questionData s = Some q" and "truthy_opt (field q ''url'')"
    and "selectedAnswer s = JStr a" and "a \<noteq> []"
    and "field q ''Answer'' = Some (JStr e)"
  shows "submitAnswer s =
     (if toLowerCase a = toLowerCase e
      then s\<lparr>showResult := True, loading := False,
             trace := trace s @
               [Alert ''Correct!'' ''Great job! You got it right!'' [''Next Question'']]\<rparr>
      else s\<lparr>loading := False, trace := trace s @ [Alert ''Incorrect'' ''Try again!'' []]\<rparr>) \<and>
   mode_of (submitAnswer s) =
     (if showCamera s then Scanning
      else if toLowerCase a = toLowerCase e \<or> showResult s then ResultShown
      else QuestionShown)"
proof (cases "toLowerCase a = toLowerCase e")
  case True
  with assms have "isCorrect (selectedAnswer s) (field q ''Answer'') = Inr True"
    by (simp add: isCorrect_strings)
  with assms have "submitAnswer s =
      s\<lparr>showResult := True, loading := False,
        trace := trace s @
          [Alert ''Correct!'' ''Great job! You got it right!'' [''Next Question'']]\<rparr>"
    by (simp add: submitAnswer_Correct)
  with assms True show ?thesis
    by (simp add: mode_of_def)
next
  case False
  with assms have "isCorrect (selectedAnswer s) (field q ''Answer'') = Inr False"
    by (simp add: isCorrect_strings)
  with assms have "submitAnswer s =
      s\<lparr>loading := False, trace := trace s @ [Alert ''Incorrect'' ''Try again!'' []]\<rparr>"
    by (simp add: submitAnswer_Incorrect)
  with assms False show ?thesis
    by (simp add: mode_of_def)
qed

theorem submitAnswer_verdict_witness:
  "questionData blueSelected = Some (storedQuestion samplePayload) \<and>
   truthy_opt (field (storedQuestion samplePayload) ''url'') \<and>
   selectedAnswer blueSelected = JStr ''blue'' \<and>
   field (storedQuestion samplePayload) ''Answer'' = Some (JStr ''blue'') \<and>
   submitAnswer blueSelected =
     blueSelected\<lparr>showResult := True, loading := False,
       trace := trace blueSelected @
         [Alert ''Correct!'' ''Great job! You got it right!'' [''Next Question'']]\<rparr> \<and>
   questionData redSelected = Some (storedQuestion samplePayload) \<and>
   selectedAnswer redSelected = JStr ''red'' \<and>
   submitAnswer redSelected =
     redSelected\<lparr>loading := False,
       trace := trace redSelected @ [Alert ''Incorrect'' ''Try again!'' []]\<rparr>"
proof -
  have q1: "questionData blueSelected = Some (storedQuestion samplePayload)" by code_simp
  have q2: "questionData redSelected = Some (storedQuestion samplePayload)" by code_simp
  have u: "truthy_opt (field (storedQuestion samplePayload) ''url'')"
    by (simp add: field_storedQuestion answerUrl_nonempty)
  have a1: "selectedAnswer blueSelected = JStr ''blue''" by code_simp
  have a2: "selectedAnswer redSelected = JStr ''red''" by code_simp
  have e: "field (storedQuestion samplePayload) ''Answer'' = Some (JStr ''blue'')"
    by (simp add: field_storedQuestion)
  have n: "toLowerCase ''red'' \<noteq> toLowerCase ''blue''" by code_simp
  have b: "submitAnswer blueSelected =
     blueSelected\<lparr>showResult := True, loading := False,
       trace := trace blueSelected @
         [Alert ''Correct!'' ''Great job! You got it right!'' [''Next Question'']]\<rparr>"
    using conjunct1 [OF submitAnswer_verdict [OF q1 u a1 _ e]] by simp
  have r: "submitAnswer redSelected =
     redSelected\<lparr>loading := False,
       trace := trace redSelected @ [Alert ''Incorrect'' ''Try again!'' []]\<rparr>"
    using conjunct1 [OF submitAnswer_verdict [OF q2 u a2 _ e]] n by simp
  from q1 q2 u a1 a2 e b r show ?thesis by simp
qed

text \<open>
  C3, as stated, fails: no request is sent on submit. With \<open>blue\<close> selected the submit
  button is accepted, the stored question carries the submission url, and afterwards the
  trace holds the one GET of the question fetch and the alert; there is no POST of the
  selected choice to the stored url.
\<close>

theorem submit_sends_no_post:
  "accepts blueSelected SubmitPressed \<and>
   selectedAnswer blueSelected = JStr ''blue'' \<and>
   map_option (\<lambda>q. field q ''url'') (questionData blueSelected) = Some (Some (JStr answerUrl)) \<and>
   trace (dispatch SubmitPressed blueSelected) =
     [Request GET sampleUrl None,
      Alert ''Correct!'' ''Great job! You got it right!'' [''Next Question'']] \<and>
   Request POST answerUrl (Some (JStr ''blue'')) \<notin> set (trace (dispatch SubmitPressed blueSelected))"
  by code_simp

text \<open>
  C3, amended: \<open>submitAnswer\<close> sends no network request at all (the stored url is only
  tested by the guard), and the verdict is computed in the client: \<open>showResult\<close> becomes
  true exactly when the guard passes and the selected answer compares equal to the stored
  \<open>Answer\<close>, so no response can affect it.
\<close>

theorem submitAnswer_is_local:
  "requests (trace (submitAnswer s)) = requests (trace s) \<and>
   showResult (submitAnswer s) =
     (showResult s \<or>
      (case questionData s of
         None \<Rightarrow> False
       | Some q \<Rightarrow>
           truthy (selectedAnswer s) \<and> truthy_opt (field q ''url'') \<and>
           isCorrect (selectedAnswer s) (field q ''Answer'') = Inr True))"
  by (simp add: submitAnswer_requests)
     (auto simp: submitAnswer_def emit_def split: option.splits sum.splits bool.splits)

theorem submitAnswer_is_local_witness:
  "truthy (selectedAnswer blueSelected) \<and>
   map_option (\<lambda>q. truthy_opt (field q ''url'')) (questionData blueSelected) = Some True \<and>
   requests (trace (submitAnswer blueSelected)) = [Request GET sampleUrl None] \<and>
   \<not> showResult blueSelected \<and> showResult (submitAnswer blueSelected) \<and>
   requests (trace (submitAnswer redSelected)) = [Request GET sampleUrl None] \<and>
   \<not> showResult (submitAnswer redSelected)"
proof -
  have g: "truthy (selectedAnswer blueSelected) \<and>
     map_option (\<lambda>q. truthy_opt (field q ''url'')) (questionData blueSelected) = Some True"
    by code_simp
  have b: "requests (trace blueSelected) = [Request GET sampleUrl None]" by code_simp
  have r: "requests (trace redSelected) = [Request GET sampleUrl None]" by code_simp
  have c: "\<not> showResult blueSelected \<and>
     (case questionData blueSelected of
        None \<Rightarrow> False
      | Some q \<Rightarrow>
          truthy (selectedAnswer blueSelected) \<and> truthy_opt (field q ''url'') \<and>
          isCorrect (selectedAnswer blueSelected) (field q ''Answer'') = Inr True)"
    by code_simp
  have d: "\<not> (showResult redSelected \<or>
     (case questionData redSelected of
        None \<Rightarrow> False
      | Some q \<Rightarrow>
          truthy (selectedAnswer redSelected) \<and> truthy_opt (field q ''url'') \<and>
          isCorrect (selectedAnswer redSelected) (field q ''Answer'') = Inr True))"
    by code_simp
  have 1: "requests (trace (submitAnswer blueSelected)) = [Request GET sampleUrl None]"
    using conjunct1 [OF submitAnswer_is_local [of blueSelected]] b by simp
  have 2: "showResult (submitAnswer blueSelected)"
    using conjunct2 [OF submitAnswer_is_local [of blueSelected]] c by blast
  have 3: "requests (trace (submitAnswer redSelected)) = [Request GET sampleUrl None]"
    using conjunct1 [OF submitAnswer_is_local [of redSelected]] r by simp
  have 4: "\<not> showResult (submitAnswer redSelected)"
    using conjunct2 [OF submitAnswer_is_local [of redSelected]] d by blast
  from g c 1 2 3 4 show ?thesis by blast
qed

text \<open>
  C8: when the selected answer is unset (or otherwise falsy), or no question is stored, or
  the stored question has no (or a falsy) \<open>url\<close>, \<open>submitAnswer\<close> returns at its guard:
  the session, the loading flag and the trace included, is unchanged.
\<close>

theorem submitAnswer_guard:
  assumes "\<not> truthy (selectedAnswer s) \<or> questionData s = None \<or>
           (\<exists>q. questionData s = Some q \<and> \<not> truthy_opt (field q ''url''))"
  shows "submitAnswer s = s"
  using assms by (auto simp: submitAnswer_def split: option.splits)

theorem submitAnswer_guard_witness:
  "selectedAnswer atQuestion = JNull \<and> submitAnswer atQuestion = atQuestion \<and>
   questionData initial = None \<and> submitAnswer initial = initial \<and>
   questionData noUrlSession = Some [(''question'', JStr ''Pick a color'')] \<and>
   field [(''question'', JStr ''Pick a color'')] ''url'' = None \<and>
   truthy (selectedAnswer noUrlSession) \<and>
   submitAnswer noUrlSession = noUrlSession"
proof -
  have a: "selectedAnswer atQuestion = JNull" by code_simp
  have b: "questionData initial = None" by code_simp
  have c: "questionData noUrlSession = Some [(''question'', JStr ''Pick a color'')]"
    by code_simp
  have d: "field [(''question'', JStr ''Pick a color'')] ''url'' = None" by code_simp
  have e: "truthy (selectedAnswer noUrlSession)" by code_simp
  have 1: "submitAnswer atQuestion = atQuestion"
    using submitAnswer_guard [of atQuestion] a by simp
  have 2: "submitAnswer initial = initial"
    using submitAnswer_guard [of initial] b by simp
  have 3: "submitAnswer noUrlSession = noUrlSession"
    using submitAnswer_guard [of noUrlSession] c d by simp
  from a b c d e 1 2 3 show ?thesis by blast
qed




subsection \<open>Fetching a question\<close>

text \<open>
  C2, as stated, fails: a \<open>url\<close> and an \<open>Answer\<close> supplied by the service are not
  preserved. The payload brings \<open>https://hunt.example/answer\<close> and \<open>red\<close>; the stored
  question has the fixed address and \<open>blue\<close>.
\<close>

theorem supplied_answer_overwritten:
  "field (spread suppliedPayload) ''url'' = Some (JStr ''https://hunt.example/answer'') \<and>
   field (spread suppliedPayload) ''Answer'' = Some (JStr ''red'') \<and>
   questionData (fetchQuestionData sampleUrl (Json suppliedPayload) initial) =
     Some [(''question'', JStr ''Pick a color''),
           (''url'', JStr answerUrl),
           (''Answer'', JStr ''blue'')] \<and>
   JStr answerUrl \<noteq> JStr ''https://hunt.example/answer'' \<and>
   JStr ''blue'' \<noteq> JStr ''red''"
  by code_simp

text \<open>
  C2, amended: for every payload of a successful fetch the stored question has the fixed
  submission url and the fixed expected answer \<open>blue\<close>, whether or not the service
  supplied those fields; every other property is the payload's.
\<close>

theorem fetchQuestionData_injects:
  "questionData (fetchQuestionData url (Json data) s) = Some (storedQuestion data) \<and>
   field (storedQuestion data) ''url'' = Some (JStr answerUrl) \<and>
   field (storedQuestion data) ''Answer'' = Some (JStr ''blue'') \<and>
   (\<forall>k. k \<noteq> ''url'' \<and> k \<noteq> ''Answer'' \<longrightarrow>
        field (storedQuestion data) k = field (spread data) k)"
  by (simp add: fetchQuestionData_Json field_storedQuestion)

theorem fetchQuestionData_injects_witness:
  "questionData (fetchQuestionData sampleUrl (Json suppliedPayload) initial) =
     Some (storedQuestion suppliedPayload) \<and>
   field (storedQuestion suppliedPayload) ''url'' = Some (JStr answerUrl) \<and>
   field (storedQuestion suppliedPayload) ''Answer'' = Some (JStr ''blue'') \<and>
   ''question'' \<noteq> ''url'' \<and> ''question'' \<noteq> ''Answer'' \<and>
   field (storedQuestion suppliedPayload) ''question'' = Some (JStr ''Pick a color'')"
proof -
  have k: "''question'' \<noteq> ''url'' \<and> ''question'' \<noteq> ''Answer''" by simp
  have p: "field (spread suppliedPayload) ''question'' = Some (JStr ''Pick a color'')"
    by code_simp
  from fetchQuestionData_injects [of sampleUrl suppliedPayload initial] k p
  show ?thesis by simp
qed

text \<open>
  C4, as stated, fails: a payload without \<open>question\<close>, and a multiple-choice payload
  without \<open>choices\<close>, are stored as the question and no alert is raised.
\<close>

theorem malformed_payload_stored:
  "field (spread (JObj [])) ''question'' = None \<and>
   questionData (fetchQuestionData sampleUrl (Json (JObj [])) initial) =
     Some [(''url'', JStr answerUrl), (''Answer'', JStr ''blue'')] \<and>
   alerts (trace (fetchQuestionData sampleUrl (Json (JObj [])) initial)) = [] \<and>
   field (spread noChoicesPayload) ''responseType'' = Some (JStr ''multipleChoice'') \<and>
   field (spread noChoicesPayload) ''choices'' = None \<and>
   questionData (fetchQuestionData sampleUrl (Json noChoicesPayload) initial) =
     Some [(''question'', JStr ''Pick a color''),
           (''responseType'', JStr ''multipleChoice''),
           (''url'', JStr answerUrl), (''Answer'', JStr ''blue'')] \<and>
   alerts (trace (fetchQuestionData sampleUrl (Json noChoicesPayload) initial)) = []"
  by code_simp

text \<open>
  C4, amended: the shape of the payload is not checked. Every body that decodes as JSON is
  stored, with the selection and the result cleared. The fetch fails only when the request
  is rejected or the body is not JSON; both failures raise the same \<open>Error\<close> alert, leave
  the stored question as it was and clear the loading flag. In every case exactly one
  request is sent: nothing is retried.
\<close>

theorem fetchQuestionData_outcomes:
  "fetchQuestionData url (Json data) s =
     s\<lparr>questionData := Some (storedQuestion data), selectedAnswer := JNull,
       showResult := False, loading := False, trace := trace s @ [Request GET url None]\<rparr> \<and>
   fetchQuestionData url FetchRejected s =
     s\<lparr>loading := False,
       trace := trace s @ [Request GET url None,
                           Alert ''Error'' ''Failed to fetch question data.'' [],
                           ConsoleError ''Fetch error:'']\<rparr> \<and>
   fetchQuestionData url BodyNotJson s =
     s\<lparr>loading := False,
       trace := trace s @ [Request GET url None,
                           Alert ''Error'' ''Failed to fetch question data.'' [],
                           ConsoleError ''Fetch error:'']\<rparr>"
  by (simp add: fetchQuestionData_Json fetchQuestionData_FetchRejected
      fetchQuestionData_BodyNotJson)

theorem fetchQuestionData_outcomes_witness:
  "questionData (fetchQuestionData sampleUrl (Json samplePayload) scanningFirst) =
     Some (storedQuestion samplePayload) \<and>
   trace (fetchQuestionData sampleUrl (Json samplePayload) scanningFirst) =
     [Request GET sampleUrl None] \<and>
   questionData (fetchQuestionData sampleUrl FetchRejected atQuestion) =
     questionData atQuestion \<and>
   trace (fetchQuestionData sampleUrl BodyNotJson atQuestion) =
     [Request GET sampleUrl None, Request GET sampleUrl None,
      Alert ''Error'' ''Failed to fetch question data.'' [], ConsoleError ''Fetch error:'']"
proof -
  have t: "trace scanningFirst = []" by code_simp
  have u: "trace atQuestion = [Request GET sampleUrl None]" by code_simp
  note f = fetchQuestionData_outcomes [of sampleUrl samplePayload scanningFirst]
  note g = fetchQuestionData_outcomes [of sampleUrl _ atQuestion]
  have 1: "questionData (fetchQuestionData sampleUrl (Json samplePayload) scanningFirst) =
     Some (storedQuestion samplePayload)"
    using conjunct1 [OF f] by simp
  have 2: "trace (fetchQuestionData sampleUrl (Json samplePayload) scanningFirst) =
     [Request GET sampleUrl None]"
    using conjunct1 [OF f] t by simp
  have 3: "questionData (fetchQuestionData sampleUrl FetchRejected atQuestion) =
     questionData atQuestion"
    using conjunct1 [OF conjunct2 [OF g]] by simp
  have 4: "trace (fetchQuestionData sampleUrl BodyNotJson atQuestion) =
     [Request GET sampleUrl None, Request GET sampleUrl None,
      Alert ''Error'' ''Failed to fetch question data.'' [], ConsoleError ''Fetch error:'']"
    using conjunct2 [OF conjunct2 [OF g]] u by simp
  from 1 2 3 4 show ?thesis by blast
qed

subsection \<open>Failures\<close>

text \<open>
  C7, as stated, fails: the mode after a failed action need not be Idle or QuestionShown.
  The result is on the screen, a deep link with the host token arrives and its fetch is
  rejected: the session is in ResultShown again.
\<close>

theorem fetch_failure_stays_at_result:
  "mode_of atResult = ResultShown \<and>
   includes_str linkUrl ''postman.com'' \<and>
   mode_of (fetchQuestionData_resume FetchRejected (handleDeepLink linkUrl atResult)) =
     ResultShown \<and>
   mode_of (fetchQuestionData_resume FetchRejected (handleDeepLink linkUrl atResult)) \<noteq> Idle \<and>
   mode_of (fetchQuestionData_resume FetchRejected (handleDeepLink linkUrl atResult)) \<noteq>
     QuestionShown"
  by code_simp

text \<open>
  C7, amended: a failed fetch (request rejected, or body not JSON) and a submit whose
  comparison raises both end in their \<open>catch\<close> and \<open>finally\<close> blocks: an \<open>Error\<close>
  alert and a console message are emitted, the loading flag is cleared, and no other state
  variable changes, the stored question included. The mode afterwards is the mode of the
  session before the action with the loading flag cleared, whichever it is (Idle,
  QuestionShown, ResultShown or Scanning). The same holds for the part of the fetch that
  runs after the request settled, in whatever session it resumes.
\<close>

theorem failed_action_keeps_session:
  "(r = FetchRejected \<or> r = BodyNotJson \<longrightarrow>
      fetchQuestionData url r s =
        s\<lparr>loading := False,
          trace := trace s @ [Request GET url None,
                              Alert ''Error'' ''Failed to fetch question data.'' [],
                              ConsoleError ''Fetch error:'']\<rparr> \<and>
      fetchQuestionData_resume r s =
        s\<lparr>loading := False,
          trace := trace s @ [Alert ''Error'' ''Failed to fetch question data.'' [],
                              ConsoleError ''Fetch error:'']\<rparr> \<and>
      mode_of (fetchQuestionData url r s) = mode_of (s\<lparr>loading := False\<rparr>)) \<and>
   (questionData s = Some q \<and> truthy (selectedAnswer s) \<and> truthy_opt (field q ''url'') \<and>
    isCorrect (selectedAnswer s) (field q ''Answer'') = Inl e \<longrightarrow>
      submitAnswer s =
        s\<lparr>loading := False,
          trace := trace s @ [Alert ''Error'' ''Failed to submit answer.'' [],
                              ConsoleError ''Submit error:'']\<rparr> \<and>
      mode_of (submitAnswer s) = mode_of (s\<lparr>loading := False\<rparr>))"
proof (intro conjI impI)
  assume r: "r = FetchRejected \<or> r = BodyNotJson"
  then show f: "fetchQuestionData url r s =
        s\<lparr>loading := False,
          trace := trace s @ [Request GET url None,
                              Alert ''Error'' ''Failed to fetch question data.'' [],
                              ConsoleError ''Fetch error:'']\<rparr>"
    by (auto simp: fetchQuestionData_FetchRejected fetchQuestionData_BodyNotJson)
  from r show "fetchQuestionData_resume r s =
        s\<lparr>loading := False,
          trace := trace s @ [Alert ''Error'' ''Failed to fetch question data.'' [],
                              ConsoleError ''Fetch error:'']\<rparr>"
    by (auto simp: fetchQuestionData_resume_def emit_def)
  show "mode_of (fetchQuestionData url r s) = mode_of (s\<lparr>loading := False\<rparr>)"
    by (simp add: f mode_of_def)
next
  assume a: "questionData s = Some q \<and> truthy (selectedAnswer s) \<and>
    truthy_opt (field q ''url'') \<and> isCorrect (selectedAnswer s) (field q ''Answer'') = Inl e"
  then show f: "submitAnswer s =
        s\<lparr>loading := False,
          trace := trace s @ [Alert ''Error'' ''Failed to submit answer.'' [],
                              ConsoleError ''Submit error:'']\<rparr>"
    by (simp add: submitAnswer_Raised)
  show "mode_of (submitAnswer s) = mode_of (s\<lparr>loading := False\<rparr>)"
    by (simp add: f mode_of_def)
qed

theorem failed_action_keeps_session_witness:
  "fetchQuestionData linkUrl FetchRejected atQuestion =
     atQuestion\<lparr>loading := False,
       trace := trace atQuestion @ [Request GET linkUrl None,
                           Alert ''Error'' ''Failed to fetch question data.'' [],
                           ConsoleError ''Fetch error:'']\<rparr> \<and>
   questionData numberSelected = Some (storedQuestion numericPayload) \<and>
   truthy (selectedAnswer numberSelected) \<and>
   truthy_opt (field (storedQuestion numericPayload) ''url'') \<and>
   isCorrect (selectedAnswer numberSelected) (field (storedQuestion numericPayload) ''Answer'') =
     Inl TypeError \<and>
   submitAnswer numberSelected =
     numberSelected\<lparr>loading := False,
       trace := trace numberSelected @ [Alert ''Error'' ''Failed to submit answer.'' [],
                           ConsoleError ''Submit error:'']\<rparr>"
proof -
  have q: "questionData numberSelected = Some (storedQuestion numericPayload)" by code_simp
  have t: "truthy (selectedAnswer numberSelected)" by code_simp
  have u: "truthy_opt (field (storedQuestion numericPayload) ''url'')"
    by (simp add: field_storedQuestion answerUrl_nonempty)
  have c: "isCorrect (selectedAnswer numberSelected)
             (field (storedQuestion numericPayload) ''Answer'') = Inl TypeError"
    by code_simp
  have f: "fetchQuestionData linkUrl FetchRejected atQuestion =
     atQuestion\<lparr>loading := False,
       trace := trace atQuestion @ [Request GET linkUrl None,
                           Alert ''Error'' ''Failed to fetch question data.'' [],
                           ConsoleError ''Fetch error:'']\<rparr>"
    using failed_action_keeps_session [of FetchRejected linkUrl atQuestion] by blast
  have g: "submitAnswer numberSelected =
     numberSelected\<lparr>loading := False,
       trace := trace numberSelected @ [Alert ''Error'' ''Failed to submit answer.'' [],
                           ConsoleError ''Submit error:'']\<rparr>"
    using failed_action_keeps_session
      [of _ _ numberSelected "storedQuestion numericPayload" TypeError] q t u c
    by blast
  from q t u c f g show ?thesis by blast
qed

subsection \<open>Next question\<close>

text \<open>
  C5, as stated, fails: the reset does not open the scanner. From the shown result the
  \<open>Next Question\<close> button leaves \<open>showCamera\<close> false, and the session is Idle, not
  Scanning.
\<close>

theorem next_question_lands_idle:
  "mode_of atResult = ResultShown \<and>
   showCamera (resetForNextQuestion atResult) = False \<and>
   mode_of (resetForNextQuestion atResult) = Idle \<and>
   mode_of (resetForNextQuestion atResult) \<noteq> Scanning"
  by code_simp

text \<open>
  C5, amended: for every session in ResultShown, the next-question action clears the
  stored question, the selected answer and \<open>showResult\<close> (and \<open>scanned\<close>), leaves the
  camera closed, and so ends in Idle; the session is in Scanning only after the scan button
  (\<open>startScanning\<close>) is pressed.
\<close>

theorem resetForNextQuestion_clears:
  assumes "mode_of s = ResultShown"
  shows "questionData (resetForNextQuestion s) = None \<and>
         selectedAnswer (resetForNextQuestion s) = JNull \<and>
         showResult (resetForNextQuestion s) = False \<and>
         scanned (resetForNextQuestion s) = False \<and>
         showCamera (resetForNextQuestion s) = False \<and>
         mode_of (resetForNextQuestion s) = Idle \<and>
         mode_of (startScanning (resetForNextQuestion s)) = Scanning"
  using assms
  by (simp add: mode_of_def resetForNextQuestion_def startScanning_def split: if_splits)

theorem resetForNextQuestion_clears_witness:
  "mode_of atResult = ResultShown \<and>
   questionData (resetForNextQuestion atResult) = None \<and>
   selectedAnswer (resetForNextQuestion atResult) = JNull \<and>
   showResult (resetForNextQuestion atResult) = False \<and>
   scanned (resetForNextQuestion atResult) = False \<and>
   showCamera (resetForNextQuestion atResult) = False \<and>
   mode_of (resetForNextQuestion atResult) = Idle \<and>
   mode_of (startScanning (resetForNextQuestion atResult)) = Scanning"
proof -
  have m: "mode_of atResult = ResultShown" by code_simp
  from resetForNextQuestion_clears [OF m] m show ?thesis by simp
qed

subsection \<open>Scanned codes and deep links\<close>

text \<open>
  C6, as stated, fails: an unrecognised code does not always lead to Idle. The scanner was
  opened from the question block, whose button keeps the stored question; the code
  \<open>hello\<close> is accepted by the scanner, and the session is back at the question.
\<close>

theorem invalid_code_returns_to_question:
  "mode_of scanningNext = Scanning \<and>
   \<not> includes_str ''hello'' ''http'' \<and> \<not> includes_str ''hello'' ''postman.com'' \<and>
   accepts scanningNext (BarcodeScanned ''qr'' ''hello'') \<and>
   mode_of (dispatch (BarcodeScanned ''qr'' ''hello'') scanningNext) = QuestionShown \<and>
   mode_of (dispatch (BarcodeScanned ''qr'' ''hello'') scanningNext) \<noteq> Idle"
  by code_simp

text \<open>
  C6, amended: the scan handler sends a request, for the payload itself, exactly when the
  payload contains \<open>postman.com\<close> or \<open>http\<close>. For any other payload it sends nothing,
  raises the \<open>Invalid QR Code\<close> alert, closes the camera, resets \<open>scanned\<close> and changes
  nothing else. The mode is then the one of the remaining flags: Submitting when the
  loading flag is true (a fetch in flight); otherwise Idle when no question is stored;
  otherwise the stored question is shown again, in ResultShown when its result was shown
  and in QuestionShown when not.
\<close>

theorem handleBarCodeScanned_recognition:
  "requests (trace (handleBarCodeScanned type data s)) =
     requests (trace s) @
       (if includes_str data ''postman.com'' \<or> includes_str data ''http''
        then [Request GET data None] else []) \<and>
   (\<not> includes_str data ''postman.com'' \<and> \<not> includes_str data ''http'' \<longrightarrow>
      handleBarCodeScanned type data s =
        s\<lparr>scanned := False, showCamera := False,
          trace := trace s @
            [Alert ''Invalid QR Code'' ''Please scan a valid scavenger hunt QR code'' []]\<rparr> \<and>
      mode_of (handleBarCodeScanned type data s) =
        (if loading s then Submitting
         else if questionData s = None then Idle
         else if showResult s then ResultShown
         else QuestionShown))"
  by (simp add: handleBarCodeScanned_def fetchQuestionData_start_def emit_def
      requests_def mode_of_def Let_def)

theorem handleBarCodeScanned_recognition_witness:
  "includes_str sampleUrl ''http'' \<and>
   requests (trace (handleBarCodeScanned ''qr'' sampleUrl scanningFirst)) =
     requests (trace scanningFirst) @ [Request GET sampleUrl None] \<and>
   \<not> includes_str ''hello'' ''postman.com'' \<and> \<not> includes_str ''hello'' ''http'' \<and>
   requests (trace (handleBarCodeScanned ''qr'' ''hello'' scanningFirst)) =
     requests (trace scanningFirst) \<and>
   handleBarCodeScanned ''qr'' ''hello'' scanningFirst =
     scanningFirst\<lparr>scanned := False, showCamera := False,
       trace := trace scanningFirst @
         [Alert ''Invalid QR Code'' ''Please scan a valid scavenger hunt QR code'' []]\<rparr> \<and>
   mode_of (handleBarCodeScanned ''qr'' ''hello'' scanningFirst) = Idle \<and>
   loading scanningWhileFetching \<and> questionData scanningWhileFetching = None \<and>
   accepts scanningWhileFetching (BarcodeScanned ''qr'' ''hello'') \<and>
   mode_of (handleBarCodeScanned ''qr'' ''hello'' scanningWhileFetching) = Submitting \<and>
   \<not> loading scanningNext \<and> questionData scanningNext \<noteq> None \<and> \<not> showResult scanningNext \<and>
   mode_of (handleBarCodeScanned ''qr'' ''hello'' scanningNext) = QuestionShown"
proof -
  have y: "includes_str sampleUrl ''http''" by code_simp
  have n: "\<not> includes_str ''hello'' ''postman.com'' \<and> \<not> includes_str ''hello'' ''http''"
    by code_simp
  have i: "\<not> loading scanningFirst \<and> questionData scanningFirst = None"
    by code_simp
  have a: "requests (trace (handleBarCodeScanned ''qr'' sampleUrl scanningFirst)) =
     requests (trace scanningFirst) @ [Request GET sampleUrl None]"
    using conjunct1 [OF handleBarCodeScanned_recognition [of "''qr''" sampleUrl scanningFirst]] y
    by simp
  have b: "requests (trace (handleBarCodeScanned ''qr'' ''hello'' scanningFirst)) =
     requests (trace scanningFirst)"
    using conjunct1 [OF handleBarCodeScanned_recognition [of "''qr''" "''hello''" scanningFirst]] n
    by simp
  have c: "handleBarCodeScanned ''qr'' ''hello'' scanningFirst =
     scanningFirst\<lparr>scanned := False, showCamera := False,
       trace := trace scanningFirst @
         [Alert ''Invalid QR Code'' ''Please scan a valid scavenger hunt QR code'' []]\<rparr>"
    using handleBarCodeScanned_recognition [of "''qr''" "''hello''" scanningFirst] n by blast
  have d: "mode_of (handleBarCodeScanned ''qr'' ''hello'' scanningFirst) = Idle"
  proof -
    have "mode_of (handleBarCodeScanned ''qr'' ''hello'' scanningFirst) =
        (if loading scanningFirst then Submitting
         else if questionData scanningFirst = None then Idle
         else if showResult scanningFirst then ResultShown
         else QuestionShown)"
      using handleBarCodeScanned_recognition [of "''qr''" "''hello''" scanningFirst] n by blast
    with i show ?thesis by simp
  qed
  have j: "loading scanningWhileFetching \<and> questionData scanningWhileFetching = None \<and>
      accepts scanningWhileFetching (BarcodeScanned ''qr'' ''hello'')"
    by code_simp
  have e: "mode_of (handleBarCodeScanned ''qr'' ''hello'' scanningWhileFetching) = Submitting"
  proof -
    have "mode_of (handleBarCodeScanned ''qr'' ''hello'' scanningWhileFetching) =
        (if loading scanningWhileFetching then Submitting
         else if questionData scanningWhileFetching = None then Idle
         else if showResult scanningWhileFetching then ResultShown
         else QuestionShown)"
      using handleBarCodeScanned_recognition [of "''qr''" "''hello''" scanningWhileFetching] n
      by blast
    with j show ?thesis by simp
  qed
  have k: "\<not> loading scanningNext \<and> questionData scanningNext \<noteq> None \<and>
      \<not> showResult scanningNext"
    by code_simp
  have f: "mode_of (handleBarCodeScanned ''qr'' ''hello'' scanningNext) = QuestionShown"
  proof -
    have "mode_of (handleBarCodeScanned ''qr'' ''hello'' scanningNext) =
        (if loading scanningNext then Submitting
         else if questionData scanningNext = None then Idle
         else if showResult scanningNext then ResultShown
         else QuestionShown)"
      using handleBarCodeScanned_recognition [of "''qr''" "''hello''" scanningNext] n
      by blast
    with k show ?thesis by simp
  qed
  from y n a b c d j e k f show ?thesis by blast
qed

text \<open>
  C10: a deep link starts a fetch exactly when its address contains \<open>postman.com\<close>; any
  other address, one with \<open>http\<close> in it included, leaves the session as it is, without
  request and without alert, while the same address as a scanned payload with \<open>http\<close>
  in it starts a fetch.
\<close>

theorem handleDeepLink_stricter:
  "requests (trace (handleDeepLink url s)) =
     requests (trace s) @ (if includes_str url ''postman.com'' then [Request GET url None] else []) \<and>
   (\<not> includes_str url ''postman.com'' \<longrightarrow> handleDeepLink url s = s) \<and>
   (includes_str url ''http'' \<longrightarrow>
      requests (trace (handleBarCodeScanned type url s)) =
        requests (trace s) @ [Request GET url None])"
proof -
  have "includes_str url ''postman.com'' \<Longrightarrow> url \<noteq> []"
    by (cases url) simp_all
  then show ?thesis
    by (auto simp: handleDeepLink_def handleBarCodeScanned_def fetchQuestionData_start_def
        emit_def requests_def Let_def)
qed

theorem handleDeepLink_stricter_witness:
  "includes_str plainUrl ''http'' \<and> \<not> includes_str plainUrl ''postman.com'' \<and>
   handleDeepLink plainUrl scanningFirst = scanningFirst \<and>
   requests (trace (handleBarCodeScanned ''qr'' plainUrl scanningFirst)) =
     requests (trace scanningFirst) @ [Request GET plainUrl None] \<and>
   includes_str linkUrl ''postman.com'' \<and>
   requests (trace (handleDeepLink linkUrl scanningFirst)) =
     requests (trace scanningFirst) @ [Request GET linkUrl None]"
proof -
  have h: "includes_str plainUrl ''http''" by code_simp
  have n: "\<not> includes_str plainUrl ''postman.com''" by code_simp
  have p: "includes_str linkUrl ''postman.com''" by code_simp
  have a: "handleDeepLink plainUrl scanningFirst = scanningFirst"
    using handleDeepLink_stricter [of plainUrl scanningFirst] n by blast
  have b: "requests (trace (handleBarCodeScanned ''qr'' plainUrl scanningFirst)) =
     requests (trace scanningFirst) @ [Request GET plainUrl None]"
    using handleDeepLink_stricter [of plainUrl scanningFirst "''qr''"] h by blast
  have c: "requests (trace (handleDeepLink linkUrl scanningFirst)) =
     requests (trace scanningFirst) @ [Request GET linkUrl None]"
    using conjunct1 [OF handleDeepLink_stricter [of linkUrl scanningFirst]] p by simp
  from h n p a b c show ?thesis by blast
qed

end
